theory Spec2Isabelle
  imports Main
begin

section \<open>Storage configuration of the image registry operator\<close>

text \<open>
  A shallow embedding of \<^verbatim>\<open>pkg/clusterconfig/clusterconfig.go\<close>. The Go functions read
  the cluster through a client and wait between polls, so every function of the model
  takes the \<open>world\<close> (the requests issued so far, the time spent waiting) and returns
  it updated next to its result. What the cluster answers is the \<open>env\<close>, which also holds
  the parts of the program that are declared outside this file.
\<close>

subsection \<open>Constants and data types\<close>

type_synonym StorageType = string

definition StorageTypeAzure :: StorageType where "StorageTypeAzure = ''azure''"
definition StorageTypeGCS :: StorageType where "StorageTypeGCS = ''gcs''"
definition StorageTypeS3 :: StorageType where "StorageTypeS3 = ''s3''"
definition StorageTypeEmptyDir :: StorageType where "StorageTypeEmptyDir = ''emptydir''"
definition StorageTypeFileSystem :: StorageType where "StorageTypeFileSystem = ''filesystem''"
definition StorageTypeSwift :: StorageType where "StorageTypeSwift = ''swift''"

definition installerConfigNamespace :: string where
  "installerConfigNamespace = ''kube-system''"
definition installerConfigName :: string where
  "installerConfigName = ''cluster-config-v1''"
definition cloudCredentialsName :: string where
  "cloudCredentialsName = ''installer-cloud-credentials''"

record Azure =
  AccountName :: string
  AccountKey :: string
  Container :: string

record GCS =
  Bucket :: string
  KeyfileData :: string

record S3 =
  AccessKey :: string
  SecretKey :: string
  Bucket :: string
  Region :: string

record Storage =
  Type :: StorageType
  Azure :: Azure
  GCS :: GCS
  S3 :: S3

record Config =
  Storage :: Storage

text \<open>\<^verbatim>\<open>&Config{}\<close>: Go's zero value, every string empty.\<close>

definition zero_Config :: Config where
  "zero_Config =
     \<lparr>Storage =
        \<lparr>Type = [],
         Azure = \<lparr>AccountName = [], AccountKey = [], Container = []\<rparr>,
         GCS = \<lparr>GCS.Bucket = [], KeyfileData = []\<rparr>,
         S3 = \<lparr>AccessKey = [], SecretKey = [], S3.Bucket = [], S3.Region = []\<rparr>\<rparr>\<rparr>"

text \<open>
  The installer's \<^verbatim>\<open>InstallConfig\<close> (package \<^verbatim>\<open>github.com/openshift/installer/pkg/types\<close>),
  cut down to the fields this file reads: \<^verbatim>\<open>Platform.AWS\<close> is a pointer, \<open>None\<close> when nil.
\<close>

record AWSPlatform =
  Region :: string

record Platform =
  AWS :: "AWSPlatform option"

record InstallConfig =
  Platform :: Platform

subsection \<open>Errors\<close>

text \<open>
  An error of the cluster API. \<^verbatim>\<open>errors.IsNotFound\<close> tells the not-found status from
  every other failure.
\<close>

datatype api_error = NotFound | Failure string

definition IsNotFound :: "api_error \<Rightarrow> bool" where
  "IsNotFound err = (err = NotFound)"

text \<open>
  The errors the functions return. A constructor stands for one format string of the
  source and carries the values formatted into it:
  \<^item> \<open>ClientError\<close>: the error of \<^verbatim>\<open>GetCoreClient\<close>, returned as it is;
  \<^item> \<open>Api\<close>: the error of a cluster read, returned as it is;
  \<^item> \<open>ErrWaitTimeout\<close>: \<^verbatim>\<open>wait.ErrWaitTimeout\<close>;
  \<^item> \<open>UnableToRead err\<close>: \<^verbatim>\<open>"unable to read cluster install configuration: %v"\<close>;
  \<^item> \<open>UnableToDecode err\<close>: \<^verbatim>\<open>"unable to decode cluster install configuration: %v"\<close>;
  \<^item> \<open>UnableToGetSecret s err\<close>: \<^verbatim>\<open>"unable to get secret %q: %v"\<close>;
  \<^item> \<open>MissingKey s k\<close>: \<^verbatim>\<open>"secret %q does not contain required key \"k\""\<close>.
\<close>

datatype error =
    ClientError string
  | Api api_error
  | ErrWaitTimeout
  | UnableToRead api_error
  | UnableToDecode string
  | UnableToGetSecret string api_error
  | MissingKey string string

text \<open>\<^verbatim>\<open>fmt.Sprintf("%s/%s", namespace, name)\<close>\<close>

definition qualified_name :: "string \<Rightarrow> string \<Rightarrow> string" where
  "qualified_name namespace name = namespace @ ''/'' @ name"

subsection \<open>The world and the environment\<close>

datatype request =
    NewClient
  | GetConfigMap string string
  | GetSecret string string

text \<open>
  \<open>requests\<close> is the log of what the program has asked for, oldest first; \<open>slept\<close> is
  the time it has spent waiting, a \<^verbatim>\<open>time.Duration\<close> (nanoseconds).
\<close>

record world =
  requests :: "request list"
  slept :: nat

definition start :: world where
  "start = \<lparr>requests = [], slept = 0\<rparr>"

definition Second :: nat where "Second = 1000000000"
definition Minute :: nat where "Minute = 60 * Second"

text \<open>
  What lies outside this file. The answer to a request depends on how many requests
  came before it (the index \<open>n\<close>), so a secret can be absent at one read and present at
  the next.
  \<^item> \<open>ImageRegistryOperatorNamespace\<close>, \<open>ImageRegistryPrivateConfigurationUser\<close>: two
    constants of package \<^verbatim>\<open>imageregistryv1\<close>;
  \<^item> \<open>GetConfig\<close>: \<^verbatim>\<open>regopclient.GetConfig()\<close>, \<open>Inl\<close> its error;
  \<^item> \<open>NewForConfig\<close>: \<^verbatim>\<open>coreset.NewForConfig(kubeconfig)\<close>;
  \<^item> \<open>ConfigMaps n namespace name\<close>: \<^verbatim>\<open>client.ConfigMaps(namespace).Get(name, ...)\<close>,
    the \<^verbatim>\<open>Data\<close> of the object read;
  \<^item> \<open>Secrets n namespace name\<close>: \<^verbatim>\<open>client.Secrets(namespace).Get(name, ...)\<close>, the
    \<^verbatim>\<open>Data\<close> of the secret (bytes as a \<open>string\<close>);
  \<^item> \<open>Decode\<close>: \<^verbatim>\<open>yaml.NewYAMLOrJSONDecoder(...).Decode\<close> into an \<^verbatim>\<open>InstallConfig\<close>.
\<close>

record env =
  ImageRegistryOperatorNamespace :: string
  ImageRegistryPrivateConfigurationUser :: string
  GetConfig :: "nat \<Rightarrow> string + unit"
  NewForConfig :: "nat \<Rightarrow> string + unit"
  ConfigMaps :: "nat \<Rightarrow> string \<Rightarrow> string \<Rightarrow> api_error + (string \<rightharpoonup> string)"
  Secrets :: "nat \<Rightarrow> string \<Rightarrow> string \<Rightarrow> api_error + (string \<rightharpoonup> string)"
  Decode :: "string \<Rightarrow> string + InstallConfig"

definition issue :: "request \<Rightarrow> world \<Rightarrow> world" where
  "issue r w = w\<lparr>requests := requests w @ [r]\<rparr>"

definition sleep :: "nat \<Rightarrow> world \<Rightarrow> world" where
  "sleep d w = w\<lparr>slept := slept w + d\<rparr>"

definition ConfigMapsGet ::
  "env \<Rightarrow> string \<Rightarrow> string \<Rightarrow> world \<Rightarrow> (api_error + (string \<rightharpoonup> string)) \<times> world" where
  "ConfigMapsGet E namespace name w =
     (ConfigMaps E (length (requests w)) namespace name, issue (GetConfigMap namespace name) w)"

definition SecretsGet ::
  "env \<Rightarrow> string \<Rightarrow> string \<Rightarrow> world \<Rightarrow> (api_error + (string \<rightharpoonup> string)) \<times> world" where
  "SecretsGet E namespace name w =
     (Secrets E (length (requests w)) namespace name, issue (GetSecret namespace name) w)"

text \<open>\<^verbatim>\<open>cm.Data[key]\<close> on a \<^verbatim>\<open>map[string]string\<close>: the empty string for a missing key.\<close>

definition index_or_empty :: "(string \<rightharpoonup> string) \<Rightarrow> string \<Rightarrow> string" where
  "index_or_empty m key = (case m key of None \<Rightarrow> [] | Some v \<Rightarrow> v)"

subsection \<open>Polling\<close>

text \<open>
  A \<^verbatim>\<open>wait.ConditionFunc\<close> returns \<^verbatim>\<open>(done bool, err error)\<close>.
\<close>

type_synonym ConditionFunc = "world \<Rightarrow> (bool \<times> error option) \<times> world"

text \<open>
  Modelled from the spec: \<^verbatim>\<open>wait.PollImmediate\<close> (package
  \<^verbatim>\<open>k8s.io/apimachinery/pkg/util/wait\<close>) is not among the source files. The spec says of
  it: check immediately, then retry at a fixed interval until success or a maximum wait
  elapses; any error of the condition aborts the poll at once; when the ceiling elapses
  the poll fails with a timeout-class error. So the condition runs at the times
  \<open>0, interval, 2 * interval, ...\<close> up to \<open>timeout\<close>: once at the start and then
  \<open>timeout div interval\<close> times, with a wait of \<open>interval\<close> before each retry.
\<close>

fun poll_retry :: "nat \<Rightarrow> nat \<Rightarrow> ConditionFunc \<Rightarrow> world \<Rightarrow> error option \<times> world" where
  "poll_retry interval 0 condition w = (Some ErrWaitTimeout, w)"
| "poll_retry interval (Suc n) condition w =
     (case condition (sleep interval w) of
        ((done, Some err), w') \<Rightarrow> (Some err, w')
      | ((done, None), w') \<Rightarrow>
          if done then (None, w') else poll_retry interval n condition w')"

definition PollImmediate :: "nat \<Rightarrow> nat \<Rightarrow> ConditionFunc \<Rightarrow> world \<Rightarrow> error option \<times> world" where
  "PollImmediate interval timeout condition w =
     (case condition w of
        ((done, Some err), w') \<Rightarrow> (Some err, w')
      | ((done, None), w') \<Rightarrow>
          if done then (None, w')
          else poll_retry interval (timeout div interval) condition w')"

subsection \<open>The functions of the source\<close>

definition GetCoreClient :: "env \<Rightarrow> world \<Rightarrow> (error + unit) \<times> world" where
  "GetCoreClient E w =
     (let n = length (requests w); w' = issue NewClient w in
      case GetConfig E n of
        Inl err \<Rightarrow> (Inl (ClientError err), w')
      | Inr kubeconfig \<Rightarrow>
          (case NewForConfig E n of
             Inl err \<Rightarrow> (Inl (ClientError err), w')
           | Inr client \<Rightarrow> (Inr client, w')))"

definition GetInstallConfig :: "env \<Rightarrow> world \<Rightarrow> (error + InstallConfig) \<times> world" where
  "GetInstallConfig E w =
     (case GetCoreClient E w of
        (Inl err, w1) \<Rightarrow> (Inl err, w1)
      | (Inr client, w1) \<Rightarrow>
          (case ConfigMapsGet E installerConfigNamespace installerConfigName w1 of
             (Inl err, w2) \<Rightarrow> (Inl (UnableToRead err), w2)
           | (Inr cm, w2) \<Rightarrow>
               (case Decode E (index_or_empty cm ''install-config'') of
                  Inl err \<Rightarrow> (Inl (UnableToDecode err), w2)
                | Inr installConfig \<Rightarrow> (Inr installConfig, w2))))"

text \<open>
  The condition of the poll in \<^verbatim>\<open>GetAWSConfig\<close>: one read of the system secret. The
  closure also stores the secret it read in \<^verbatim>\<open>sec\<close>; the function reads \<^verbatim>\<open>sec\<close> only after
  it has assigned it again from the read that follows the poll, so the model drops that
  store.
\<close>

definition cloudCredentialsReady :: "env \<Rightarrow> ConditionFunc" where
  "cloudCredentialsReady E w =
     (case SecretsGet E (ImageRegistryOperatorNamespace E) cloudCredentialsName w of
        (Inl err, w') \<Rightarrow>
          if IsNotFound err then ((False, None), w') else ((False, Some (Api err)), w')
      | (Inr sec, w') \<Rightarrow> ((True, None), w'))"

definition GetAWSConfig :: "env \<Rightarrow> world \<Rightarrow> (error + Config) \<times> world" where
  "GetAWSConfig E w =
     (case GetCoreClient E w of
        (Inl err, w1) \<Rightarrow> (Inl err, w1)
      | (Inr client, w1) \<Rightarrow>
     (case GetInstallConfig E w1 of
        (Inl err, w2) \<Rightarrow> (Inl err, w2)
      | (Inr installConfig, w2) \<Rightarrow>
     (let cfg = zero_Config;
          cfg = Storage_update (Type_update (\<lambda>_. StorageTypeS3)) cfg;
          cfg = (case AWS (Platform installConfig) of
                   None \<Rightarrow> cfg
                 | Some aws \<Rightarrow>
                     Storage_update (S3_update (S3.Region_update (\<lambda>_. AWSPlatform.Region aws))) cfg)
      in
      case SecretsGet E (ImageRegistryOperatorNamespace E)
             (ImageRegistryPrivateConfigurationUser E) w2 of
        (Inl err, w3) \<Rightarrow>
          if IsNotFound err then
            (case PollImmediate (1 * Second) (5 * Minute) (cloudCredentialsReady E) w3 of
               (Some err, w4) \<Rightarrow> (Inl err, w4)
             | (None, w4) \<Rightarrow>
            (case SecretsGet E (ImageRegistryOperatorNamespace E) cloudCredentialsName w4 of
               (Inl err, w5) \<Rightarrow>
                 (Inl (UnableToGetSecret
                         (qualified_name installerConfigNamespace cloudCredentialsName) err), w5)
             | (Inr sec, w5) \<Rightarrow>
            (case sec ''aws_access_key_id'' of
               None \<Rightarrow>
                 (Inl (MissingKey (qualified_name installerConfigNamespace cloudCredentialsName)
                         ''aws_access_key_id''), w5)
             | Some v \<Rightarrow>
            (let cfg = Storage_update (S3_update (AccessKey_update (\<lambda>_. v))) cfg in
             case sec ''aws_secret_access_key'' of
               None \<Rightarrow>
                 (Inl (MissingKey (qualified_name installerConfigNamespace cloudCredentialsName)
                         ''aws_secret_access_key''), w5)
             | Some v \<Rightarrow>
                 (Inr (Storage_update (S3_update (SecretKey_update (\<lambda>_. v))) cfg), w5)))))
          else (Inl (Api err), w3)
      | (Inr sec, w3) \<Rightarrow>
          (case sec ''REGISTRY_STORAGE_S3_ACCESSKEY'' of
             None \<Rightarrow>
               (Inl (MissingKey
                       (qualified_name (ImageRegistryOperatorNamespace E)
                          (ImageRegistryPrivateConfigurationUser E))
                       ''REGISTRY_STORAGE_S3_ACCESSKEY''), w3)
           | Some v \<Rightarrow>
          (let cfg = Storage_update (S3_update (AccessKey_update (\<lambda>_. v))) cfg in
           case sec ''REGISTRY_STORAGE_S3_SECRETKEY'' of
             None \<Rightarrow>
               (Inl (MissingKey
                       (qualified_name (ImageRegistryOperatorNamespace E)
                          (ImageRegistryPrivateConfigurationUser E))
                       ''REGISTRY_STORAGE_S3_SECRETKEY''), w3)
           | Some v \<Rightarrow>
               (Inr (Storage_update (S3_update (SecretKey_update (\<lambda>_. v))) cfg), w3))))))"

definition GetGCSConfig :: "world \<Rightarrow> (error + Config) \<times> world" where
  "GetGCSConfig w =
     (let cfg = zero_Config;
          cfg = Storage_update (Type_update (\<lambda>_. StorageTypeGCS)) cfg
      in (Inr cfg, w))"

subsection \<open>Vocabulary of the statements\<close>

text \<open>
  A call of \<^verbatim>\<open>GetAWSConfig\<close> in a fresh world first builds two clients (its own and the one
  of \<^verbatim>\<open>GetInstallConfig\<close>) and reads the install configuration: requests 0, 1 and 2.
  The user-defined secret is request 3, the reads of the system secret are requests 4, 5, ...
\<close>

definition install_requests :: "request list" where
  "install_requests =
     [NewClient, NewClient, GetConfigMap installerConfigNamespace installerConfigName]"

text \<open>
  \<open>descriptor_read E ic\<close>: both clients are built, the ConfigMap is read and its
  \<^verbatim>\<open>install-config\<close> field decodes to the descriptor \<open>ic\<close>.
\<close>

definition descriptor_read :: "env \<Rightarrow> InstallConfig \<Rightarrow> bool" where
  "descriptor_read E ic =
     (GetConfig E 0 = Inr () \<and> NewForConfig E 0 = Inr () \<and>
      GetConfig E 1 = Inr () \<and> NewForConfig E 1 = Inr () \<and>
      (case ConfigMaps E 2 installerConfigNamespace installerConfigName of
         Inl err \<Rightarrow> False
       | Inr cm \<Rightarrow> Decode E (index_or_empty cm ''install-config'') = Inr ic))"

text \<open>
  The world after the install configuration, the read of the user-defined secret and
  \<open>m\<close> reads of the system secret, with \<open>t\<close> nanoseconds spent waiting.
\<close>

definition asked :: "env \<Rightarrow> nat \<Rightarrow> nat \<Rightarrow> world" where
  "asked E m t =
     \<lparr>requests = install_requests @
        GetSecret (ImageRegistryOperatorNamespace E) (ImageRegistryPrivateConfigurationUser E) #
        replicate m (GetSecret (ImageRegistryOperatorNamespace E) cloudCredentialsName),
      slept = t\<rparr>"

text \<open>
  A configuration of type \<^verbatim>\<open>s3\<close> with the given keys and region, every other field
  empty.
\<close>

definition s3_config :: "string \<Rightarrow> string \<Rightarrow> string \<Rightarrow> Config" where
  "s3_config accessKey secretKey region =
     \<lparr>Storage =
        \<lparr>Type = ''s3'',
         Azure = \<lparr>AccountName = [], AccountKey = [], Container = []\<rparr>,
         GCS = \<lparr>GCS.Bucket = [], KeyfileData = []\<rparr>,
         S3 = \<lparr>AccessKey = accessKey, SecretKey = secretKey, S3.Bucket = [],
               S3.Region = region\<rparr>\<rparr>\<rparr>"

definition descriptor_region :: "InstallConfig \<Rightarrow> string" where
  "descriptor_region ic =
     (case AWS (Platform ic) of None \<Rightarrow> [] | Some aws \<Rightarrow> AWSPlatform.Region aws)"

text \<open>
  What the lemmas below say the function makes of a secret it has read: the first
  missing key as an error, or the configuration. \<open>poll_outcome\<close> is what the poll
  returns on a read that is not a not-found.
\<close>

definition user_credentials :: "env \<Rightarrow> InstallConfig \<Rightarrow> (string \<rightharpoonup> string) \<Rightarrow> error + Config" where
  "user_credentials E ic sec =
     (case sec ''REGISTRY_STORAGE_S3_ACCESSKEY'' of
        None \<Rightarrow>
          Inl (MissingKey
                 (qualified_name (ImageRegistryOperatorNamespace E)
                    (ImageRegistryPrivateConfigurationUser E))
                 ''REGISTRY_STORAGE_S3_ACCESSKEY'')
      | Some a \<Rightarrow>
          (case sec ''REGISTRY_STORAGE_S3_SECRETKEY'' of
             None \<Rightarrow>
               Inl (MissingKey
                      (qualified_name (ImageRegistryOperatorNamespace E)
                         (ImageRegistryPrivateConfigurationUser E))
                      ''REGISTRY_STORAGE_S3_SECRETKEY'')
           | Some b \<Rightarrow> Inr (s3_config a b (descriptor_region ic))))"

definition system_credentials :: "InstallConfig \<Rightarrow> (string \<rightharpoonup> string) \<Rightarrow> error + Config" where
  "system_credentials ic sec =
     (case sec ''aws_access_key_id'' of
        None \<Rightarrow>
          Inl (MissingKey (qualified_name installerConfigNamespace cloudCredentialsName)
                 ''aws_access_key_id'')
      | Some a \<Rightarrow>
          (case sec ''aws_secret_access_key'' of
             None \<Rightarrow>
               Inl (MissingKey (qualified_name installerConfigNamespace cloudCredentialsName)
                      ''aws_secret_access_key'')
           | Some b \<Rightarrow> Inr (s3_config a b (descriptor_region ic))))"

definition poll_outcome :: "api_error + (string \<rightharpoonup> string) \<Rightarrow> error option" where
  "poll_outcome r = (case r of Inl e \<Rightarrow> Some (Api e) | Inr sec \<Rightarrow> None)"

subsection \<open>Example clusters\<close>

text \<open>
  A cluster whose operator namespace is \<^verbatim>\<open>openshift-image-registry\<close>, whose install
  configuration is the document \<open>doc\<close> and whose secrets are answered by \<open>secs\<close>; a
  decoder that knows two documents.
\<close>

definition example_Decode :: "string \<Rightarrow> string + InstallConfig" where
  "example_Decode doc =
     (if doc = ''{platform: {aws: {region: us-east-1}}}''
      then Inr \<lparr>Platform = \<lparr>AWS = Some \<lparr>AWSPlatform.Region = ''us-east-1''\<rparr>\<rparr>\<rparr>
      else if doc = ''{platform: {}}''
      then Inr \<lparr>Platform = \<lparr>AWS = None\<rparr>\<rparr>
      else Inl ''cannot decode'')"

definition example_env ::
  "string \<Rightarrow> (nat \<Rightarrow> string \<Rightarrow> api_error + (string \<rightharpoonup> string)) \<Rightarrow> env" where
  "example_env doc secs =
     \<lparr>ImageRegistryOperatorNamespace = ''openshift-image-registry'',
      ImageRegistryPrivateConfigurationUser = ''image-registry-private-configuration-user'',
      GetConfig = (\<lambda>n. Inr ()),
      NewForConfig = (\<lambda>n. Inr ()),
      ConfigMaps = (\<lambda>n namespace name.
        if namespace = ''kube-system'' \<and> name = ''cluster-config-v1''
        then Inr [''install-config'' \<mapsto> doc] else Inl NotFound),
      Secrets = (\<lambda>n namespace name.
        if namespace = ''openshift-image-registry'' then secs n name else Inl NotFound),
      Decode = example_Decode\<rparr>"

text \<open>
  Four ways the secrets can be answered: the user-defined secret is there; the system
  secret is there from request \<open>m\<close> on; request \<open>m\<close> fails and nothing is found before;
  nothing is ever found.
\<close>

definition user_secret ::
  "string \<Rightarrow> string \<Rightarrow> nat \<Rightarrow> string \<Rightarrow> api_error + (string \<rightharpoonup> string)" where
  "user_secret a b n name =
     (if name = ''image-registry-private-configuration-user''
      then Inr [''REGISTRY_STORAGE_S3_ACCESSKEY'' \<mapsto> a, ''REGISTRY_STORAGE_S3_SECRETKEY'' \<mapsto> b]
      else Inl NotFound)"

definition system_secret_from ::
  "nat \<Rightarrow> (string \<rightharpoonup> string) \<Rightarrow> nat \<Rightarrow> string \<Rightarrow> api_error + (string \<rightharpoonup> string)" where
  "system_secret_from m sec n name =
     (if name = ''installer-cloud-credentials'' \<and> m \<le> n then Inr sec else Inl NotFound)"

definition failure_at :: "nat \<Rightarrow> nat \<Rightarrow> string \<Rightarrow> api_error + (string \<rightharpoonup> string)" where
  "failure_at m n name = (if n = m then Inl (Failure ''connection refused'') else Inl NotFound)"

definition no_secret :: "nat \<Rightarrow> string \<Rightarrow> api_error + (string \<rightharpoonup> string)" where
  "no_secret n name = Inl NotFound"

lemmas example_defs =
  example_env_def example_Decode_def user_secret_def system_secret_from_def failure_at_def
  no_secret_def descriptor_read_def installerConfigNamespace_def installerConfigName_def
  cloudCredentialsName_def index_or_empty_def

section \<open>The poll\<close>

lemma cloudCredentialsReady_NotFound:
  "Secrets E (length (requests w)) (ImageRegistryOperatorNamespace E) cloudCredentialsName = Inl NotFound \<Longrightarrow>
   cloudCredentialsReady E w =
     ((False, None), issue (GetSecret (ImageRegistryOperatorNamespace E) cloudCredentialsName) w)"
  by (simp add: cloudCredentialsReady_def SecretsGet_def IsNotFound_def)

lemma cloudCredentialsReady_decided:
  "Secrets E (length (requests w)) (ImageRegistryOperatorNamespace E) cloudCredentialsName = r \<Longrightarrow>
   r \<noteq> Inl NotFound \<Longrightarrow>
   cloudCredentialsReady E w =
     ((case r of Inl e \<Rightarrow> False | Inr sec \<Rightarrow> True, poll_outcome r),
      issue (GetSecret (ImageRegistryOperatorNamespace E) cloudCredentialsName) w)"
  by (auto simp add: cloudCredentialsReady_def SecretsGet_def IsNotFound_def poll_outcome_def
      split: sum.splits)

lemma poll_retry_decided:
  assumes "\<forall>i<j. Secrets E (length (requests w) + i) (ImageRegistryOperatorNamespace E) cloudCredentialsName = Inl NotFound"
    and "Secrets E (length (requests w) + j) (ImageRegistryOperatorNamespace E) cloudCredentialsName = r"
    and "r \<noteq> Inl NotFound" and "j < n"
  shows "poll_retry d n (cloudCredentialsReady E) w =
     (poll_outcome r,
      \<lparr>requests = requests w @ replicate (Suc j) (GetSecret (ImageRegistryOperatorNamespace E) cloudCredentialsName),
       slept = slept w + Suc j * d\<rparr>)"
  using assms
proof (induction j arbitrary: w n)
  case 0
  then obtain m where n: "n = Suc m" by (cases n) auto
  from 0 have "cloudCredentialsReady E (sleep d w) =
     ((case r of Inl e \<Rightarrow> False | Inr sec \<Rightarrow> True, poll_outcome r),
      issue (GetSecret (ImageRegistryOperatorNamespace E) cloudCredentialsName) (sleep d w))"
    by (intro cloudCredentialsReady_decided) (simp_all add: sleep_def)
  then have "poll_retry d n (cloudCredentialsReady E) w =
      (poll_outcome r,
       issue (GetSecret (ImageRegistryOperatorNamespace E) cloudCredentialsName) (sleep d w))"
    by (cases r) (simp_all add: n poll_outcome_def)
  then show ?case
    by (simp add: issue_def sleep_def)
next
  case (Suc j)
  then obtain m where n: "n = Suc m" and jm: "j < m" by (cases n) auto
  let ?w = "issue (GetSecret (ImageRegistryOperatorNamespace E) cloudCredentialsName) (sleep d w)"
  from Suc.prems(1)[rule_format, of 0] have "Secrets E (length (requests (sleep d w))) (ImageRegistryOperatorNamespace E) cloudCredentialsName = Inl NotFound"
    by (simp add: sleep_def)
  then have c: "cloudCredentialsReady E (sleep d w) = ((False, None), ?w)"
    by (rule cloudCredentialsReady_NotFound)
  have len: "length (requests ?w) = Suc (length (requests w))"
    by (simp add: issue_def sleep_def)
  have "poll_retry d m (cloudCredentialsReady E) ?w =
     (poll_outcome r,
      \<lparr>requests = requests ?w @ replicate (Suc j) (GetSecret (ImageRegistryOperatorNamespace E) cloudCredentialsName),
       slept = slept ?w + Suc j * d\<rparr>)"
  proof (rule Suc.IH)
    show "\<forall>i<j. Secrets E (length (requests ?w) + i) (ImageRegistryOperatorNamespace E) cloudCredentialsName = Inl NotFound"
      using Suc.prems(1)[rule_format, of "Suc i" for i] by (simp add: len)
    show "Secrets E (length (requests ?w) + j) (ImageRegistryOperatorNamespace E) cloudCredentialsName = r"
      using Suc.prems(2) by (simp add: len)
  qed (use Suc.prems jm in auto)
  moreover have "poll_retry d n (cloudCredentialsReady E) w =
      poll_retry d m (cloudCredentialsReady E) ?w"
    by (simp add: n c)
  ultimately show ?case
    by (simp add: issue_def sleep_def)
qed

lemma poll_retry_timeout:
  assumes "\<forall>i<n. Secrets E (length (requests w) + i) (ImageRegistryOperatorNamespace E) cloudCredentialsName = Inl NotFound"
  shows "poll_retry d n (cloudCredentialsReady E) w =
     (Some ErrWaitTimeout,
      \<lparr>requests = requests w @ replicate n (GetSecret (ImageRegistryOperatorNamespace E) cloudCredentialsName),
       slept = slept w + n * d\<rparr>)"
  using assms
proof (induction n arbitrary: w)
  case 0
  then show ?case by simp
next
  case (Suc n)
  let ?w = "issue (GetSecret (ImageRegistryOperatorNamespace E) cloudCredentialsName) (sleep d w)"
  from Suc.prems[rule_format, of 0] have "Secrets E (length (requests (sleep d w))) (ImageRegistryOperatorNamespace E) cloudCredentialsName = Inl NotFound"
    by (simp add: sleep_def)
  then have c: "cloudCredentialsReady E (sleep d w) = ((False, None), ?w)"
    by (rule cloudCredentialsReady_NotFound)
  have len: "length (requests ?w) = Suc (length (requests w))"
    by (simp add: issue_def sleep_def)
  have "poll_retry d n (cloudCredentialsReady E) ?w =
     (Some ErrWaitTimeout,
      \<lparr>requests = requests ?w @ replicate n (GetSecret (ImageRegistryOperatorNamespace E) cloudCredentialsName),
       slept = slept ?w + n * d\<rparr>)"
  proof (rule Suc.IH)
    show "\<forall>i<n. Secrets E (length (requests ?w) + i) (ImageRegistryOperatorNamespace E) cloudCredentialsName = Inl NotFound"
      using Suc.prems[rule_format, of "Suc i" for i] by (simp add: len)
  qed
  moreover have "poll_retry d (Suc n) (cloudCredentialsReady E) w =
      poll_retry d n (cloudCredentialsReady E) ?w"
    by (simp add: c)
  ultimately show ?case
    by (simp add: issue_def sleep_def)
qed

lemma PollImmediate_decided:
  assumes "\<forall>i<j. Secrets E (length (requests w) + i) (ImageRegistryOperatorNamespace E) cloudCredentialsName = Inl NotFound"
    and "Secrets E (length (requests w) + j) (ImageRegistryOperatorNamespace E) cloudCredentialsName = r"
    and "r \<noteq> Inl NotFound" and "j \<le> t div d"
  shows "PollImmediate d t (cloudCredentialsReady E) w =
     (poll_outcome r,
      \<lparr>requests = requests w @ replicate (Suc j) (GetSecret (ImageRegistryOperatorNamespace E) cloudCredentialsName),
       slept = slept w + j * d\<rparr>)"
proof (cases j)
  case 0
  with assms have "cloudCredentialsReady E w =
     ((case r of Inl e \<Rightarrow> False | Inr sec \<Rightarrow> True, poll_outcome r),
      issue (GetSecret (ImageRegistryOperatorNamespace E) cloudCredentialsName) w)"
    by (intro cloudCredentialsReady_decided) simp_all
  then have "PollImmediate d t (cloudCredentialsReady E) w =
     (poll_outcome r, issue (GetSecret (ImageRegistryOperatorNamespace E) cloudCredentialsName) w)"
    by (cases r) (simp_all add: PollImmediate_def poll_outcome_def)
  then show ?thesis
    by (simp add: 0 issue_def)
next
  case (Suc k)
  let ?w = "issue (GetSecret (ImageRegistryOperatorNamespace E) cloudCredentialsName) w"
  from assms(1)[rule_format, of 0] Suc
  have c: "cloudCredentialsReady E w = ((False, None), ?w)"
    by (intro cloudCredentialsReady_NotFound) simp
  have len: "length (requests ?w) = Suc (length (requests w))"
    by (simp add: issue_def)
  have "poll_retry d (t div d) (cloudCredentialsReady E) ?w =
     (poll_outcome r,
      \<lparr>requests = requests ?w @ replicate (Suc k) (GetSecret (ImageRegistryOperatorNamespace E) cloudCredentialsName),
       slept = slept ?w + Suc k * d\<rparr>)"
  proof (rule poll_retry_decided)
    show "\<forall>i<k. Secrets E (length (requests ?w) + i) (ImageRegistryOperatorNamespace E) cloudCredentialsName = Inl NotFound"
      using assms(1)[rule_format, of "Suc i" for i] Suc by (simp add: len)
    show "Secrets E (length (requests ?w) + k) (ImageRegistryOperatorNamespace E) cloudCredentialsName = r"
      using assms(2) Suc by (simp add: len)
  qed (use assms Suc in auto)
  moreover have "PollImmediate d t (cloudCredentialsReady E) w =
      poll_retry d (t div d) (cloudCredentialsReady E) ?w"
    by (simp add: PollImmediate_def c)
  ultimately show ?thesis
    by (simp add: Suc issue_def)
qed

lemma PollImmediate_timeout:
  assumes "\<forall>i\<le>t div d. Secrets E (length (requests w) + i) (ImageRegistryOperatorNamespace E) cloudCredentialsName = Inl NotFound"
  shows "PollImmediate d t (cloudCredentialsReady E) w =
     (Some ErrWaitTimeout,
      \<lparr>requests = requests w @ replicate (Suc (t div d)) (GetSecret (ImageRegistryOperatorNamespace E) cloudCredentialsName),
       slept = slept w + (t div d) * d\<rparr>)"
proof -
  let ?w = "issue (GetSecret (ImageRegistryOperatorNamespace E) cloudCredentialsName) w"
  from assms[rule_format, of 0]
  have c: "cloudCredentialsReady E w = ((False, None), ?w)"
    by (intro cloudCredentialsReady_NotFound) simp
  have len: "length (requests ?w) = Suc (length (requests w))"
    by (simp add: issue_def)
  have "poll_retry d (t div d) (cloudCredentialsReady E) ?w =
     (Some ErrWaitTimeout,
      \<lparr>requests = requests ?w @ replicate (t div d) (GetSecret (ImageRegistryOperatorNamespace E) cloudCredentialsName),
       slept = slept ?w + (t div d) * d\<rparr>)"
  proof (rule poll_retry_timeout)
    show "\<forall>i<t div d. Secrets E (length (requests ?w) + i) (ImageRegistryOperatorNamespace E) cloudCredentialsName = Inl NotFound"
      using assms[rule_format, of "Suc i" for i] by (simp add: len)
  qed
  moreover have "PollImmediate d t (cloudCredentialsReady E) w =
      poll_retry d (t div d) (cloudCredentialsReady E) ?w"
    by (simp add: PollImmediate_def c)
  ultimately show ?thesis
    by (simp add: issue_def)
qed

lemma ceiling_retries: "(5 * Minute) div Second = 300"
  by (simp add: Minute_def Second_def)

section \<open>The paths through \<^verbatim>\<open>GetAWSConfig\<close>\<close>

lemma install_prefix:
  assumes "descriptor_read E ic"
  shows "GetCoreClient E start = (Inr (), issue NewClient start)"
    and "GetInstallConfig E (issue NewClient start) =
           (Inr ic, \<lparr>requests = install_requests, slept = 0\<rparr>)"
  using assms
  by (auto simp add: descriptor_read_def GetCoreClient_def GetInstallConfig_def
      ConfigMapsGet_def start_def issue_def install_requests_def Let_def
      numeral_2_eq_2 split: sum.splits)

lemma length_install_requests: "length install_requests = 3"
  by (simp add: install_requests_def)

lemma GetAWSConfig_resolve:
  assumes "descriptor_read E ic"
  shows "GetAWSConfig E start =
     (case Secrets E 3 (ImageRegistryOperatorNamespace E) (ImageRegistryPrivateConfigurationUser E) of
        Inl err \<Rightarrow>
          if err = NotFound then
            (case PollImmediate (1 * Second) (5 * Minute) (cloudCredentialsReady E) (asked E 0 0) of
               (Some err, w4) \<Rightarrow> (Inl err, w4)
             | (None, w4) \<Rightarrow>
                 (case Secrets E (length (requests w4)) (ImageRegistryOperatorNamespace E) cloudCredentialsName of
                    Inl err \<Rightarrow>
                      (Inl (UnableToGetSecret (qualified_name installerConfigNamespace cloudCredentialsName) err),
                       issue (GetSecret (ImageRegistryOperatorNamespace E) cloudCredentialsName) w4)
                  | Inr sec \<Rightarrow>
                      (system_credentials ic sec,
                       issue (GetSecret (ImageRegistryOperatorNamespace E) cloudCredentialsName) w4)))
          else (Inl (Api err), asked E 0 0)
      | Inr sec \<Rightarrow> (user_credentials E ic sec, asked E 0 0))"
proof -
  have w3: "issue (GetSecret (ImageRegistryOperatorNamespace E) (ImageRegistryPrivateConfigurationUser E))
      \<lparr>requests = install_requests, slept = 0\<rparr> = asked E 0 0"
    by (simp add: issue_def asked_def)
  show ?thesis
    by (simp add: GetAWSConfig_def install_prefix[OF assms(1)] SecretsGet_def
        length_install_requests w3 IsNotFound_def system_credentials_def user_credentials_def
        s3_config_def zero_Config_def StorageTypeS3_def descriptor_region_def
        split: option.splits sum.splits prod.splits)
qed

lemma GetAWSConfig_user:
  assumes "descriptor_read E ic"
    and "Secrets E 3 (ImageRegistryOperatorNamespace E) (ImageRegistryPrivateConfigurationUser E) = Inr sec"
  shows "GetAWSConfig E start = (user_credentials E ic sec, asked E 0 0)"
  by (simp add: GetAWSConfig_resolve[OF assms(1)] assms(2))

lemma GetAWSConfig_user_error:
  assumes "descriptor_read E ic"
    and "Secrets E 3 (ImageRegistryOperatorNamespace E) (ImageRegistryPrivateConfigurationUser E) = Inl e"
    and "e \<noteq> NotFound"
  shows "GetAWSConfig E start = (Inl (Api e), asked E 0 0)"
  by (simp add: GetAWSConfig_resolve[OF assms(1)] assms(2,3))

lemma GetAWSConfig_fallback:
  assumes "descriptor_read E ic"
    and "Secrets E 3 (ImageRegistryOperatorNamespace E) (ImageRegistryPrivateConfigurationUser E) = Inl NotFound"
  shows "GetAWSConfig E start =
     (case PollImmediate (1 * Second) (5 * Minute) (cloudCredentialsReady E) (asked E 0 0) of
        (Some err, w4) \<Rightarrow> (Inl err, w4)
      | (None, w4) \<Rightarrow>
          (case Secrets E (length (requests w4)) (ImageRegistryOperatorNamespace E) cloudCredentialsName of
             Inl err \<Rightarrow>
               (Inl (UnableToGetSecret (qualified_name installerConfigNamespace cloudCredentialsName) err),
                issue (GetSecret (ImageRegistryOperatorNamespace E) cloudCredentialsName) w4)
           | Inr sec \<Rightarrow>
               (system_credentials ic sec,
                issue (GetSecret (ImageRegistryOperatorNamespace E) cloudCredentialsName) w4)))"
  by (simp add: GetAWSConfig_resolve[OF assms(1)] assms(2))

lemma GetAWSConfig_poll_decided:
  assumes "descriptor_read E ic"
    and "Secrets E 3 (ImageRegistryOperatorNamespace E) (ImageRegistryPrivateConfigurationUser E) = Inl NotFound"
    and "\<forall>i<j. Secrets E (4 + i) (ImageRegistryOperatorNamespace E) cloudCredentialsName = Inl NotFound"
    and "Secrets E (4 + j) (ImageRegistryOperatorNamespace E) cloudCredentialsName = r"
    and "r \<noteq> Inl NotFound" and "j \<le> 300"
  shows "GetAWSConfig E start =
     (case r of
        Inl e \<Rightarrow> (Inl (Api e), asked E (Suc j) (j * Second))
      | Inr found \<Rightarrow>
          (case Secrets E (5 + j) (ImageRegistryOperatorNamespace E) cloudCredentialsName of
             Inl err \<Rightarrow>
               (Inl (UnableToGetSecret (qualified_name installerConfigNamespace cloudCredentialsName) err),
                asked E (Suc (Suc j)) (j * Second))
           | Inr sec \<Rightarrow> (system_credentials ic sec, asked E (Suc (Suc j)) (j * Second))))"
proof -
  have len: "length (requests (asked E 0 0)) = 4"
    by (simp add: asked_def length_install_requests)
  have "PollImmediate (1 * Second) (5 * Minute) (cloudCredentialsReady E) (asked E 0 0) =
     (poll_outcome r,
      \<lparr>requests = requests (asked E 0 0) @
         replicate (Suc j) (GetSecret (ImageRegistryOperatorNamespace E) cloudCredentialsName),
       slept = slept (asked E 0 0) + j * (1 * Second)\<rparr>)"
    by (rule PollImmediate_decided) (use assms in \<open>simp_all add: len ceiling_retries\<close>)
  then have poll: "PollImmediate (1 * Second) (5 * Minute) (cloudCredentialsReady E) (asked E 0 0) =
     (poll_outcome r, asked E (Suc j) (j * Second))"
    by (simp add: asked_def)
  have len': "length (requests (asked E (Suc j) (j * Second))) = 5 + j"
    by (simp add: asked_def length_install_requests)
  have iss: "issue (GetSecret (ImageRegistryOperatorNamespace E) cloudCredentialsName)
      (asked E (Suc j) (j * Second)) = asked E (Suc (Suc j)) (j * Second)"
    by (simp add: issue_def asked_def replicate_append_same)
  show ?thesis
    unfolding GetAWSConfig_fallback[OF assms(1,2)] poll
    by (cases r) (simp_all add: poll_outcome_def len' iss split: sum.splits)
qed

lemma GetAWSConfig_poll_timeout:
  assumes "descriptor_read E ic"
    and "Secrets E 3 (ImageRegistryOperatorNamespace E) (ImageRegistryPrivateConfigurationUser E) = Inl NotFound"
    and "\<forall>i\<le>300. Secrets E (4 + i) (ImageRegistryOperatorNamespace E) cloudCredentialsName = Inl NotFound"
  shows "GetAWSConfig E start = (Inl ErrWaitTimeout, asked E 301 (5 * Minute))"
proof -
  have len: "length (requests (asked E 0 0)) = 4"
    by (simp add: asked_def length_install_requests)
  have "PollImmediate (1 * Second) (5 * Minute) (cloudCredentialsReady E) (asked E 0 0) =
     (Some ErrWaitTimeout,
      \<lparr>requests = requests (asked E 0 0) @
         replicate (Suc ((5 * Minute) div (1 * Second)))
           (GetSecret (ImageRegistryOperatorNamespace E) cloudCredentialsName),
       slept = slept (asked E 0 0) + ((5 * Minute) div (1 * Second)) * (1 * Second)\<rparr>)"
    by (rule PollImmediate_timeout) (use assms in \<open>simp_all add: len ceiling_retries\<close>)
  moreover have "300 * Second = 5 * Minute"
    by (simp add: Minute_def)
  ultimately have poll: "PollImmediate (1 * Second) (5 * Minute) (cloudCredentialsReady E) (asked E 0 0) =
     (Some ErrWaitTimeout, asked E 301 (5 * Minute))"
    by (simp add: asked_def ceiling_retries)
  show ?thesis
    unfolding GetAWSConfig_fallback[OF assms(1,2)] poll
    by simp
qed

section \<open>The claims\<close>

text \<open>
  C1. When the install descriptor has an AWS platform block with region \<open>R\<close> and the
  user-defined secret exists with both keys \<^verbatim>\<open>REGISTRY_STORAGE_S3_ACCESSKEY\<close> and
  \<^verbatim>\<open>REGISTRY_STORAGE_S3_SECRETKEY\<close>, \<^verbatim>\<open>GetAWSConfig\<close> succeeds: the configuration has type
  \<^verbatim>\<open>s3\<close>, the two values of the secret as access key and secret key, and region \<open>R\<close>.
  The secret is the only one read.
\<close>

theorem GetAWSConfig_user_secret:
  assumes "descriptor_read E ic"
    and "AWS (Platform ic) = Some aws" and "AWSPlatform.Region aws = R"
    and "Secrets E 3 (ImageRegistryOperatorNamespace E) (ImageRegistryPrivateConfigurationUser E) = Inr sec"
    and "sec ''REGISTRY_STORAGE_S3_ACCESSKEY'' = Some accessKey"
    and "sec ''REGISTRY_STORAGE_S3_SECRETKEY'' = Some secretKey"
  shows "GetAWSConfig E start = (Inr (s3_config accessKey secretKey R), asked E 0 0)"
  using assms(2,3,5,6)
  by (simp add: GetAWSConfig_user[OF assms(1,4)] user_credentials_def descriptor_region_def)

theorem GetAWSConfig_user_secret_witness:
  "GetAWSConfig
     (example_env ''{platform: {aws: {region: us-east-1}}}'' (user_secret ''AKIA'' ''s3cr3t''))
     start =
     (Inr (s3_config ''AKIA'' ''s3cr3t'' ''us-east-1''),
      asked (example_env ''{platform: {aws: {region: us-east-1}}}''
              (user_secret ''AKIA'' ''s3cr3t'')) 0 0)"
  by (rule GetAWSConfig_user_secret[where
        ic = "\<lparr>Platform = \<lparr>AWS = Some \<lparr>AWSPlatform.Region = ''us-east-1''\<rparr>\<rparr>\<rparr>"
        and aws = "\<lparr>AWSPlatform.Region = ''us-east-1''\<rparr>"
        and sec = "[''REGISTRY_STORAGE_S3_ACCESSKEY'' \<mapsto> ''AKIA'',
                    ''REGISTRY_STORAGE_S3_SECRETKEY'' \<mapsto> ''s3cr3t'']"])
    (simp_all add: example_defs)

end
